theory Spec2Isabelle
  imports Complex_Main
begin

section \<open>Errors\<close>

text \<open>
  The error classes of \<^verbatim>\<open>src/handles/errors.js\<close>. A function that can throw returns
  \<open>error + 'a\<close>, with \<open>Inl\<close> for the thrown error.
\<close>

datatype error =
    ValidationError
  | AuthenticationError
  | AuthorizationError
  | NotFoundError
  | ConflictError
  | DatabaseError

section \<open>JavaScript numbers\<close>

text \<open>
  A Number is an IEEE 754 binary64 value: a rational that the format represents, one of
  the two infinities, or NaN (the two zeros are identified: they are equal under
  \<^verbatim>\<open>===\<close> and under the arithmetic used here). \<open>roundDouble\<close> rounds a rational to the
  nearest representable value, ties to the even significand: with \<open>e\<close> the binary
  exponent of the argument, not below that of the smallest normal number, the
  significand is the argument in units of \<open>2 powi (e - 52)\<close>, rounded to an integer; a
  result of magnitude \<open>2 ^ 1024\<close> or more is an infinity. \<open>fadd\<close> and \<open>fsub\<close> are the
  operators \<^verbatim>\<open>+\<close> and \<^verbatim>\<open>-\<close> on Numbers: the exact result, rounded.
\<close>

datatype number = Num rat | PosInf | NegInf | NaN

function bitLength :: "int \<Rightarrow> int" where
  "bitLength a = (if a \<le> 0 then 0 else bitLength (a div 2) + 1)"
  by auto
termination
  by (relation "measure nat") auto

declare bitLength.simps [simp del]

definition floorLog2 :: "rat \<Rightarrow> int" where
  "floorLog2 q =
     (case quotient_of q of
        (a, b) \<Rightarrow>
          (let d = bitLength a - bitLength b
           in if 2 powi d \<le> q then d else d - 1))"

definition roundHalfEven :: "rat \<Rightarrow> int" where
  "roundHalfEven x =
     (let f = \<lfloor>x\<rfloor>; d = x - of_int f
      in if d < 1 / 2 then f else if 1 / 2 < d then f + 1
         else if even f then f else f + 1)"

definition roundDouble :: "rat \<Rightarrow> number" where
  "roundDouble q =
     (if q = 0 then Num 0
      else
        (let e = max (floorLog2 \<bar>q\<bar>) (- 1022);
             u = 2 powi (e - 52);
             m = roundHalfEven (q / u)
         in if 1024 \<le> e \<or> (e = 1023 \<and> 2 ^ 53 \<le> \<bar>m\<bar>)
            then (if 0 < q then PosInf else NegInf)
            else Num (of_int m * u)))"

fun fadd :: "number \<Rightarrow> number \<Rightarrow> number" where
  "fadd (Num x) (Num y) = roundDouble (x + y)"
| "fadd NaN _ = NaN"
| "fadd _ NaN = NaN"
| "fadd PosInf NegInf = NaN"
| "fadd NegInf PosInf = NaN"
| "fadd PosInf _ = PosInf"
| "fadd _ PosInf = PosInf"
| "fadd NegInf _ = NegInf"
| "fadd _ NegInf = NegInf"

fun fneg :: "number \<Rightarrow> number" where
  "fneg (Num x) = Num (- x)"
| "fneg PosInf = NegInf"
| "fneg NegInf = PosInf"
| "fneg NaN = NaN"

definition fsub :: "number \<Rightarrow> number \<Rightarrow> number" where
  "fsub x y = fadd x (fneg y)"

text \<open>
  The comparisons \<^verbatim>\<open>x === y\<close>, \<^verbatim>\<open>n > 0\<close> and \<^verbatim>\<open>n <= 0\<close>, the rational a finite Number
  stands for, and the Numbers that are non-negative integers.
\<close>

fun strictEq :: "number \<Rightarrow> number \<Rightarrow> bool" where
  "strictEq NaN _ = False"
| "strictEq _ NaN = False"
| "strictEq x y = (x = y)"

fun numPositive :: "number \<Rightarrow> bool" where
  "numPositive (Num q) = (0 < q)"
| "numPositive PosInf = True"
| "numPositive _ = False"




section \<open>Documents and collections\<close>

text \<open>
  The Mongoose schemas of \<^verbatim>\<open>models/Account.js\<close> and \<^verbatim>\<open>models/Transaction.js\<close> as
  records. Strings with an \<^verbatim>\<open>enum\<close> validator stay strings, because the methods compare
  them as strings. A Number field is a \<open>number\<close>. A Date is its time value in
  milliseconds.
  \<open>acc_id\<close> and \<open>tx_id\<close> are the documents' \<^verbatim>\<open>_id\<close>, in string form.
\<close>

record account =
  acc_id :: string
  accountCode :: string
  accountName :: string
  accountType :: string
  parentAccount :: "string option"
  balance :: number
  entity :: "(string \<times> string) option"
  acc_createdAt :: int
  acc_updatedAt :: int

record accountRef =
  refAccountType :: string
  accountId :: string

record transaction =
  tx_id :: string
  transactionId :: string
  amount :: number
  txType :: string
  debitAccount :: accountRef
  creditAccount :: accountRef
  reference :: "string \<times> string"
  description :: "string option"
  status :: string
  approvedBy :: "string option"
  linkedTransaction :: "string option"
  metadata :: "(string \<rightharpoonup> string) option"
  createdAt :: int
  tx_updatedAt :: int

text \<open>
  The two collections, each a list of documents. \<^verbatim>\<open>save()\<close> of a document replaces the
  stored document that has its \<^verbatim>\<open>_id\<close>, or appends it; the \<^verbatim>\<open>pre("save")\<close> hook of either
  schema writes \<^verbatim>\<open>updatedAt = Date.now()\<close> first. The persistence layer itself is
  taken to succeed. \<open>now\<close> is the reading of the clock during the call.
\<close>

record database =
  accounts :: "account list"
  transactions :: "transaction list"

fun upsert :: "('a \<Rightarrow> string) \<Rightarrow> 'a \<Rightarrow> 'a list \<Rightarrow> 'a list" where
  "upsert key d [] = [d]"
| "upsert key d (x # xs) = (if key x = key d then d # xs else x # upsert key d xs)"

definition findAccountById :: "string \<Rightarrow> database \<Rightarrow> account option" where
  "findAccountById i db = find (\<lambda>a. acc_id a = i) (accounts db)"

definition findTransactionById :: "string \<Rightarrow> database \<Rightarrow> transaction option" where
  "findTransactionById i db = find (\<lambda>t. tx_id t = i) (transactions db)"

definition save_account :: "int \<Rightarrow> account \<Rightarrow> database \<Rightarrow> account \<times> database" where
  "save_account now this db =
     (let this' = this\<lparr>acc_updatedAt := now\<rparr>
      in (this', db\<lparr>accounts := upsert acc_id this' (accounts db)\<rparr>))"

definition save_transaction :: "int \<Rightarrow> transaction \<Rightarrow> database \<Rightarrow> transaction \<times> database" where
  "save_transaction now this db =
     (let this' = this\<lparr>tx_updatedAt := now\<rparr>
      in (this', db\<lparr>transactions := upsert tx_id this' (transactions db)\<rparr>))"

section \<open>Account.updateBalance\<close>

text \<open>
  \<^verbatim>\<open>accountSchema.methods.updateBalance(amount, operation)\<close>: two nested tests, on the
  operation and on membership of the account type in \<^verbatim>\<open>["asset", "expense"]\<close>; an
  operation that is neither string falls through both. Then the timestamp and the save.
  The method has no \<^verbatim>\<open>throw\<close>.
\<close>

definition updateBalance ::
  "number \<Rightarrow> string \<Rightarrow> int \<Rightarrow> account \<Rightarrow> database \<Rightarrow> error + (account \<times> database)" where
  "updateBalance amnt operation now this db =
     (let this1 =
        (if operation = ''debit'' then
           (if accountType this \<in> set [''asset'', ''expense'']
            then this\<lparr>balance := fadd (balance this) amnt\<rparr>
            else this\<lparr>balance := fsub (balance this) amnt\<rparr>)
         else if operation = ''credit'' then
           (if accountType this \<in> set [''asset'', ''expense'']
            then this\<lparr>balance := fsub (balance this) amnt\<rparr>
            else this\<lparr>balance := fadd (balance this) amnt\<rparr>)
         else this);
        this2 = this1\<lparr>acc_updatedAt := now\<rparr>
      in Inr (save_account now this2 db))"

definition getBalance :: "account \<Rightarrow> number" where
  "getBalance this = balance this"

text \<open>The balance the store holds for an account id, when the account exists.\<close>

definition storedBalance :: "string \<Rightarrow> database \<Rightarrow> number option" where
  "storedBalance i db = map_option getBalance (findAccountById i db)"

text \<open>
  Reading the outcome of a call: the error it raised, the value it returned, and the
  balance the store holds for an account once the call has returned.
\<close>

definition raised :: "error + 'a \<Rightarrow> error option" where
  "raised r = (case r of Inl e \<Rightarrow> Some e | Inr v \<Rightarrow> None)"

definition returned :: "error + 'a \<Rightarrow> 'a option" where
  "returned r = (case r of Inl e \<Rightarrow> None | Inr v \<Rightarrow> Some v)"

definition balanceAfter :: "string \<Rightarrow> error + ('d \<times> database) \<Rightarrow> number option" where
  "balanceAfter i r = (case r of Inl e \<Rightarrow> None | Inr (d, db') \<Rightarrow> storedBalance i db')"

section \<open>Transaction.approve and Transaction.reject\<close>

text \<open>
  \<^verbatim>\<open>transactionSchema.methods.approve(approverId)\<close> assigns the status, the approver and
  the timestamp of the document and saves it. It reads nothing and has no \<^verbatim>\<open>throw\<close>.
\<close>

definition approve ::
  "string \<Rightarrow> int \<Rightarrow> transaction \<Rightarrow> database \<Rightarrow> error + (transaction \<times> database)" where
  "approve approverId now this db =
     (let this1 = this\<lparr>status := ''approved''\<rparr>;
          this2 = this1\<lparr>approvedBy := Some approverId\<rparr>;
          this3 = this2\<lparr>tx_updatedAt := now\<rparr>
      in Inr (save_transaction now this3 db))"

text \<open>
  \<^verbatim>\<open>reject(approverId, reason)\<close> does the same with status \<^verbatim>\<open>"rejected"\<close>, and rebuilds
  the metadata as \<^verbatim>\<open>{ ...this.metadata, rejectionReason: reason }\<close>; spreading an absent
  metadata contributes no key.
\<close>

definition reject ::
  "string \<Rightarrow> string \<Rightarrow> int \<Rightarrow> transaction \<Rightarrow> database \<Rightarrow> error + (transaction \<times> database)" where
  "reject approverId reason now this db =
     (let this1 = this\<lparr>status := ''rejected''\<rparr>;
          this2 = this1\<lparr>approvedBy := Some approverId\<rparr>;
          this3 = this2\<lparr>metadata :=
                    Some ((case metadata this2 of None \<Rightarrow> Map.empty | Some m \<Rightarrow> m)
                            (''rejectionReason'' \<mapsto> reason))\<rparr>;
          this4 = this3\<lparr>tx_updatedAt := now\<rparr>
      in Inr (save_transaction now this4 db))"

text \<open>
  The document the store holds for a transaction id once a call has returned, and the
  rejection reason a transaction's metadata holds, if any.
\<close>

definition transactionAfter :: "string \<Rightarrow> error + ('d \<times> database) \<Rightarrow> transaction option" where
  "transactionAfter i r = (case r of Inl e \<Rightarrow> None | Inr (d, db') \<Rightarrow> findTransactionById i db')"

definition rejectionReason :: "transaction \<Rightarrow> string option" where
  "rejectionReason tx = (case metadata tx of None \<Rightarrow> None | Some m \<Rightarrow> m ''rejectionReason'')"

section \<open>reconcileAccounts\<close>

text \<open>
  \<^verbatim>\<open>utils/doubleEntry.js\<close>. For each id the account is looked up (an absent one is
  skipped), the transactions naming the id on either side are fetched, and the balance is
  recomputed by the inner loop: plus the amount where the id is the debit account, minus
  the amount where it is the credit account. The account's type is not read.
\<close>

record reconciliation =
  r_accountId :: string
  r_accountCode :: string
  recordedBalance :: number
  calculatedBalance :: number
  difference :: number
  reconciled :: bool

record reconcileResult =
  r_accounts :: "reconciliation list"
  allReconciled :: bool

definition findTouching :: "string \<Rightarrow> database \<Rightarrow> transaction list" where
  "findTouching i db =
     filter (\<lambda>t. accountId (debitAccount t) = i \<or> accountId (creditAccount t) = i)
       (transactions db)"

definition calcStep :: "string \<Rightarrow> number \<Rightarrow> transaction \<Rightarrow> number" where
  "calcStep i calculated tx =
     (let c1 = (if accountId (debitAccount tx) = i then fadd calculated (amount tx)
                else calculated);
          c2 = (if accountId (creditAccount tx) = i then fsub c1 (amount tx) else c1)
      in c2)"

fun reconcileLoop ::
  "string list \<Rightarrow> database \<Rightarrow> reconciliation list \<Rightarrow> reconciliation list" where
  "reconcileLoop [] db results = results"
| "reconcileLoop (i # rest) db results =
     (case findAccountById i db of
        None \<Rightarrow> reconcileLoop rest db results
      | Some acct \<Rightarrow>
          (let txs = findTouching i db;
               calculated = foldl (calcStep i) (Num 0) txs;
               diff = fsub (balance acct) calculated
           in reconcileLoop rest db
                (results @
                 [\<lparr>r_accountId = i, r_accountCode = accountCode acct,
                   recordedBalance = balance acct, calculatedBalance = calculated,
                   difference = diff, reconciled = strictEq diff (Num 0)\<rparr>])))"

definition reconcileAccounts :: "string list \<Rightarrow> database \<Rightarrow> error + reconcileResult" where
  "reconcileAccounts accountIds db =
     (let results = reconcileLoop accountIds db []
      in Inr \<lparr>r_accounts = results, allReconciled = list_all reconciled results\<rparr>)"

section \<open>isManager\<close>

text \<open>
  \<^verbatim>\<open>handles/permissions.js\<close>. The principal comes from the token: a designation and a
  string employee id (which may be missing). The employee's \<^verbatim>\<open>manager\<close> is a Mongoose
  ObjectId, or absent: an object, so \<^verbatim>\<open>employee.manager &&\<close> tests presence, and the
  comparison is on its \<^verbatim>\<open>toString()\<close>. A null or undefined argument is \<open>None\<close>.
\<close>

datatype objectId = ObjectId string

fun toString :: "objectId \<Rightarrow> string" where
  "toString (ObjectId s) = s"

record user =
  userId :: string
  employeeId :: "string option"
  designation :: string

record employee =
  emp_userId :: string
  emp_name :: string
  emp_designation :: string
  manager :: "objectId option"

definition isManager :: "user option \<Rightarrow> employee option \<Rightarrow> bool" where
  "isManager usr emp =
     (case usr of
        None \<Rightarrow> False
      | Some u \<Rightarrow>
          (case emp of
             None \<Rightarrow> False
           | Some e \<Rightarrow>
               if designation u = ''Admin'' then True
               else (case manager e of
                       None \<Rightarrow> False
                     | Some m \<Rightarrow> if Some (toString m) = employeeId u then True else False)))"

section \<open>Role hierarchy\<close>

text \<open>\<^verbatim>\<open>constants/roles.js\<close>. \<open>indexOf\<close> is \<^verbatim>\<open>Array.prototype.indexOf\<close>: \<open>-1\<close> when absent.\<close>

definition ROLE_HIERARCHY :: "string list" where
  "ROLE_HIERARCHY = [''Vendor'', ''Employee'', ''BranchManager'', ''Admin'']"

fun indexOf :: "'a list \<Rightarrow> 'a \<Rightarrow> int" where
  "indexOf [] x = - 1"
| "indexOf (y # ys) x =
     (if y = x then 0 else (let i = indexOf ys x in if i = - 1 then - 1 else i + 1))"

definition isRoleHigher :: "string \<Rightarrow> string \<Rightarrow> bool" where
  "isRoleHigher role1 role2 =
     (let index1 = indexOf ROLE_HIERARCHY role1;
          index2 = indexOf ROLE_HIERARCHY role2
      in if index1 = - 1 \<or> index2 = - 1 then False else index1 > index2)"

section \<open>aggregateByPeriod\<close>












subsection \<open>The Date methods of a host in the UTC time zone\<close>









section \<open>Fixtures\<close>

definition mkAccount :: "string \<Rightarrow> string \<Rightarrow> number \<Rightarrow> account" where
  "mkAccount i ty b =
     \<lparr>acc_id = i, accountCode = i, accountName = i, accountType = ty,
      parentAccount = None, balance = b, entity = None,
      acc_createdAt = 0, acc_updatedAt = 0\<rparr>"

text \<open>A transaction of amount \<open>n\<close> debiting account \<open>a\<close> and crediting account \<open>b\<close>.\<close>

definition mkTransaction ::
  "string \<Rightarrow> string \<Rightarrow> string \<Rightarrow> number \<Rightarrow> string \<Rightarrow> int \<Rightarrow> transaction" where
  "mkTransaction i a b n st created =
     \<lparr>tx_id = i, transactionId = ''TX-'' @ i, amount = n, txType = ''transfer'',
      debitAccount = \<lparr>refAccountType = ''account'', accountId = a\<rparr>,
      creditAccount = \<lparr>refAccountType = ''account'', accountId = b\<rparr>,
      reference = (''employee'', ''e1''), description = None, status = st,
      approvedBy = None, linkedTransaction = None, metadata = None,
      createdAt = created, tx_updatedAt = created\<rparr>"

text \<open>
  A store with an asset account and a liability account, both at zero, and one pending
  transaction of 100 between them; the same store with the transaction rejected by
  \<open>m1\<close>; and the same store once the transaction is approved and its two postings have
  been applied by \<open>updateBalance\<close>.
\<close>

definition ledgerDb :: database where
  "ledgerDb =
     \<lparr>accounts = [mkAccount ''A'' ''asset'' (Num 0), mkAccount ''L'' ''liability'' (Num 0)],
      transactions = [mkTransaction ''t1'' ''A'' ''L'' (Num 100) ''pending'' 5]\<rparr>"

definition rejectedTx :: transaction where
  "rejectedTx = (mkTransaction ''t1'' ''A'' ''L'' (Num 100) ''rejected'' 5)\<lparr>approvedBy := Some ''m1''\<rparr>"

definition decidedDb :: database where
  "decidedDb =
     \<lparr>accounts = [mkAccount ''A'' ''asset'' (Num 0), mkAccount ''L'' ''liability'' (Num 0)],
      transactions = [rejectedTx]\<rparr>"

definition postedDb :: database where
  "postedDb =
     \<lparr>accounts = [mkAccount ''A'' ''asset'' (Num 100), mkAccount ''L'' ''liability'' (Num 100)],
      transactions = [mkTransaction ''t1'' ''A'' ''L'' (Num 100) ''approved'' 5]\<rparr>"



section \<open>Properties of Number arithmetic\<close>

lemma bitLength_nonneg: "0 \<le> bitLength a"
  by (induction a rule: bitLength.induct) (subst bitLength.simps, auto)

lemma bitLength_pos: "0 < a \<Longrightarrow> 1 \<le> bitLength a"
  using bitLength_nonneg [of "a div 2"] by (subst bitLength.simps) simp

lemma bitLength_lower: "0 < a \<Longrightarrow> 2 ^ nat (bitLength a - 1) \<le> a"
proof (induction a rule: bitLength.induct)
  case (1 a)
  show ?case
  proof (cases "a div 2 = 0")
    case True
    with 1(2) have "a = 1" by simp
    then show ?thesis by (subst bitLength.simps) (simp add: bitLength.simps [of 0])
  next
    case False
    with 1(2) have p: "0 < a div 2" by (simp add: pos_imp_zdiv_pos_iff)
    with 1 have ih: "2 ^ nat (bitLength (a div 2) - 1) \<le> a div 2" by simp
    have b: "1 \<le> bitLength (a div 2)" using p by (rule bitLength_pos)
    have "bitLength a = bitLength (a div 2) + 1"
      using 1(2) by (subst bitLength.simps) simp
    then have "nat (bitLength a - 1) = Suc (nat (bitLength (a div 2) - 1))"
      using b by simp
    then have "(2::int) ^ nat (bitLength a - 1) = 2 * 2 ^ nat (bitLength (a div 2) - 1)"
      by simp
    also have "\<dots> \<le> 2 * (a div 2)" using ih by simp
    also have "\<dots> \<le> a" by simp
    finally show ?thesis .
  qed
qed

lemma roundHalfEven_of_int: "roundHalfEven (of_int j) = j"
  by (simp add: roundHalfEven_def)

lemma floorLog2_of_int:
  assumes "0 < a"
  shows "floorLog2 (of_int a) = bitLength a - 1"
proof -
  have b1: "bitLength 1 = 1" by (simp add: bitLength.simps [of 1] bitLength.simps [of 0])
  have d: "0 \<le> bitLength a - 1" using bitLength_pos [OF assms] by simp
  have "(2::rat) powi (bitLength a - 1) = 2 ^ nat (bitLength a - 1)"
    using d by (simp add: power_int_def)
  also have "\<dots> = of_int (2 ^ nat (bitLength a - 1))" by simp
  also have "\<dots> \<le> of_int a" using bitLength_lower [OF assms] by (simp only: of_int_le_iff)
  finally have "(2::rat) powi (bitLength a - 1) \<le> of_int a" .
  then show ?thesis by (simp add: floorLog2_def b1)
qed

text \<open>
  An integer of magnitude below \<open>2 ^ 53\<close> is a Number: rounding leaves it as it is.
\<close>

lemma roundDouble_of_int:
  assumes "\<bar>k\<bar> < 2 ^ 53"
  shows "roundDouble (of_int k) = Num (of_int k)"
proof (cases "k = 0")
  case True
  then show ?thesis by (simp add: roundDouble_def)
next
  case False
  define a where "a = \<bar>k\<bar>"
  define d where "d = bitLength a - 1"
  have a: "0 < a" using False by (simp add: a_def)
  have d0: "0 \<le> d" using bitLength_pos [OF a] by (simp add: d_def)
  have "(2::int) ^ nat d \<le> a" using bitLength_lower [OF a] by (simp add: d_def)
  also have "a < 2 ^ 53" using assms by (simp add: a_def)
  finally have lt: "(2::int) ^ nat d < 2 ^ 53" .
  have "nat d < 53"
  proof (rule ccontr)
    assume "\<not> nat d < 53"
    then have "(2::int) ^ 53 \<le> 2 ^ nat d" by (intro power_increasing) auto
    with lt show False by linarith
  qed
  then have d52: "d \<le> 52" by simp
  have fl: "floorLog2 \<bar>of_int k\<bar> = d"
    using floorLog2_of_int [OF a] by (simp add: a_def d_def)
  define j where "j = nat (52 - d)"
  have "d - 52 = - int j" using d52 by (simp add: j_def)
  then have "(2::rat) powi (d - 52) = inverse (2 powi int j)"
    by (simp only: power_int_minus)
  then have u: "(2::rat) powi (d - 52) = inverse (2 ^ j)"
    by (simp only: power_int_of_nat)
  have "of_int k / inverse ((2::rat) ^ j) = of_int (k * 2 ^ j)"
    by (simp add: field_simps)
  then have m: "roundHalfEven (of_int k / inverse ((2::rat) ^ j)) = k * 2 ^ j"
    by (simp only: roundHalfEven_of_int)
  have "of_int (k * 2 ^ j) * inverse ((2::rat) ^ j) = of_int k"
    by (simp add: field_simps)
  with m u have r:
    "of_int (roundHalfEven (of_int k / 2 powi (d - 52))) * 2 powi (d - 52) = (of_int k :: rat)"
    by (simp only:)
  have e: "max (floorLog2 \<bar>of_int k\<bar>) (- 1022) = d"
    using fl d0 by (simp only: max_def) simp
  have q0: "(of_int k :: rat) \<noteq> 0" using False by simp
  have noovf: "\<not> (1024 \<le> d \<or> (d = 1023 \<and> P))" for P using d52 by simp
  show ?thesis
    by (simp only: roundDouble_def Let_def e r q0 noovf if_False)
qed

lemma fadd_of_int:
  "\<bar>b + k\<bar> < 2 ^ 53 \<Longrightarrow> fadd (Num (of_int b)) (Num (of_int k)) = Num (of_int (b + k))"
  using roundDouble_of_int [of "b + k"] by simp

lemma fsub_of_int:
  "\<bar>b - k\<bar> < 2 ^ 53 \<Longrightarrow> fsub (Num (of_int b)) (Num (of_int k)) = Num (of_int (b - k))"
  using roundDouble_of_int [of "b - k"] by (simp add: fsub_def)




section \<open>Properties of the store\<close>

lemma find_upsert:
  "find (\<lambda>x. key x = key d) (upsert key d xs) = Some d"
  by (induction xs) auto

lemma storedBalance_save_account:
  "storedBalance (acc_id a) (snd (save_account now a db)) = Some (balance a)"
proof -
  let ?a = "a\<lparr>acc_updatedAt := now\<rparr>"
  have "find (\<lambda>x. acc_id x = acc_id ?a) (upsert acc_id ?a (accounts db)) = Some ?a"
    by (rule find_upsert)
  then show ?thesis
    by (simp add: storedBalance_def findAccountById_def save_account_def getBalance_def Let_def)
qed

lemma balanceAfter_save_account:
  "acc_id a1 = i \<Longrightarrow> balanceAfter i (Inr (save_account now a1 db)) = Some (balance a1)"
  using storedBalance_save_account [of a1 now db]
  by (cases "save_account now a1 db") (simp add: balanceAfter_def)

lemma balanceAfter_updateBalance:
  "balanceAfter (acc_id a) (updateBalance n op now a db) =
     Some (if op = ''debit'' then
             (if accountType a \<in> set [''asset'', ''expense'']
              then fadd (balance a) n else fsub (balance a) n)
           else if op = ''credit'' then
             (if accountType a \<in> set [''asset'', ''expense'']
              then fsub (balance a) n else fadd (balance a) n)
           else balance a)"
  by (cases "op = ''debit''"; cases "op = ''credit''";
      cases "accountType a \<in> set [''asset'', ''expense'']")
     (simp_all add: updateBalance_def Let_def balanceAfter_save_account)

lemma raised_updateBalance: "raised (updateBalance n op now a db) = None"
  by (simp add: raised_def updateBalance_def Let_def)

lemma returned_updateBalance_other:
  "op \<noteq> ''debit'' \<Longrightarrow> op \<noteq> ''credit'' \<Longrightarrow>
   map_option fst (returned (updateBalance n op now a db)) = Some (a\<lparr>acc_updatedAt := now\<rparr>)"
  by (simp add: returned_def updateBalance_def save_account_def Let_def)

section \<open>The normal-balance rule\<close>

text \<open>
  Claim C3, as the code has it. For every account and every amount \<open>n > 0\<close>,
  \<open>updateBalance\<close> returns and the stored balance follows the normal-balance rule in
  Number arithmetic: on an asset or expense account a debit stores the Number sum
  \<^verbatim>\<open>balance + n\<close> and a credit the Number difference \<^verbatim>\<open>balance - n\<close>; on a liability,
  equity or revenue account a debit stores \<^verbatim>\<open>balance - n\<close> and a credit \<^verbatim>\<open>balance + n\<close>.
  The change is exactly \<open>n\<close> when the balance and \<open>n\<close> are integers and the sum and the
  difference are below \<open>2 ^ 53\<close> in magnitude.
\<close>

theorem updateBalance_number_rule:
  assumes "numPositive n"
  shows "(accountType a \<in> {''asset'', ''expense''} \<longrightarrow>
            balanceAfter (acc_id a) (updateBalance n ''debit'' now a db) =
              Some (fadd (balance a) n) \<and>
            balanceAfter (acc_id a) (updateBalance n ''credit'' now a db) =
              Some (fsub (balance a) n)) \<and>
         (accountType a \<in> {''liability'', ''equity'', ''revenue''} \<longrightarrow>
            balanceAfter (acc_id a) (updateBalance n ''debit'' now a db) =
              Some (fsub (balance a) n) \<and>
            balanceAfter (acc_id a) (updateBalance n ''credit'' now a db) =
              Some (fadd (balance a) n)) \<and>
         (\<forall>b k. balance a = Num (of_int b) \<and> n = Num (of_int k) \<and>
                \<bar>b + k\<bar> < 2 ^ 53 \<and> \<bar>b - k\<bar> < 2 ^ 53 \<longrightarrow>
                fadd (balance a) n = Num (of_int (b + k)) \<and>
                fsub (balance a) n = Num (of_int (b - k)))"
proof -
  have exact: "fadd (balance a) n = Num (of_int (b + k)) \<and>
               fsub (balance a) n = Num (of_int (b - k))"
    if "balance a = Num (of_int b)" "n = Num (of_int k)"
       "\<bar>b + k\<bar> < 2 ^ 53" "\<bar>b - k\<bar> < 2 ^ 53" for b k
    using that by (simp only: fadd_of_int fsub_of_int)
  have assetSide: "accountType a \<in> {''asset'', ''expense''} \<longrightarrow>
            balanceAfter (acc_id a) (updateBalance n ''debit'' now a db) =
              Some (fadd (balance a) n) \<and>
            balanceAfter (acc_id a) (updateBalance n ''credit'' now a db) =
              Some (fsub (balance a) n)"
    by (auto simp: balanceAfter_updateBalance)
  have otherSide: "accountType a \<in> {''liability'', ''equity'', ''revenue''} \<longrightarrow>
            balanceAfter (acc_id a) (updateBalance n ''debit'' now a db) =
              Some (fsub (balance a) n) \<and>
            balanceAfter (acc_id a) (updateBalance n ''credit'' now a db) =
              Some (fadd (balance a) n)"
    by (auto simp: balanceAfter_updateBalance)
  from assetSide otherSide exact show ?thesis by blast
qed

theorem updateBalance_number_rule_witness:
  "numPositive (Num 25) \<and>
   balanceAfter ''A'' (updateBalance (Num 25) ''debit'' 7 (mkAccount ''A'' ''asset'' (Num 100))
      \<lparr>accounts = [mkAccount ''A'' ''asset'' (Num 100)], transactions = []\<rparr>) = Some (Num 125) \<and>
   balanceAfter ''L'' (updateBalance (Num 25) ''debit'' 7 (mkAccount ''L'' ''liability'' (Num 100))
      \<lparr>accounts = [mkAccount ''L'' ''liability'' (Num 100)], transactions = []\<rparr>) = Some (Num 75)"
proof -
  have "fadd (Num 100) (Num 25) = Num 125" and "fsub (Num 100) (Num 25) = Num 75"
    using fadd_of_int [of 100 25] fsub_of_int [of 100 25] by simp_all
  then show ?thesis
    using updateBalance_number_rule [of "Num 25" "mkAccount ''A'' ''asset'' (Num 100)" 7
        "\<lparr>accounts = [mkAccount ''A'' ''asset'' (Num 100)], transactions = []\<rparr>"]
      updateBalance_number_rule [of "Num 25" "mkAccount ''L'' ''liability'' (Num 100)" 7
        "\<lparr>accounts = [mkAccount ''L'' ''liability'' (Num 100)], transactions = []\<rparr>"]
    by (simp add: mkAccount_def)
qed

text \<open>
  The claim as written fails, the stored balance being a Number. A debit of 1 on an asset
  account that holds \<open>2 ^ 53\<close> leaves \<open>2 ^ 53\<close> in the store; and a debit of \<^verbatim>\<open>0.1\<close> on one
  that holds \<^verbatim>\<open>0.2\<close> stores \<^verbatim>\<open>0.30000000000000004\<close>, which is not the sum of the two.
\<close>

theorem updateBalance_number_rule_counterexample:
  "numPositive (Num 1) \<and>
   balanceAfter ''A'' (updateBalance (Num 1) ''debit'' 7 (mkAccount ''A'' ''asset'' (Num (2 ^ 53)))
      \<lparr>accounts = [mkAccount ''A'' ''asset'' (Num (2 ^ 53))], transactions = []\<rparr>)
     = Some (Num (2 ^ 53)) \<and>
   roundDouble (1 / 10) = Num (3602879701896397 / 36028797018963968) \<and>
   roundDouble (2 / 10) = Num (3602879701896397 / 18014398509481984) \<and>
   balanceAfter ''A''
     (updateBalance (roundDouble (1 / 10)) ''debit'' 7 (mkAccount ''A'' ''asset'' (roundDouble (2 / 10)))
        \<lparr>accounts = [mkAccount ''A'' ''asset'' (roundDouble (2 / 10))], transactions = []\<rparr>)
     = Some (Num (1351079888211149 / 4503599627370496)) \<and>
   (3602879701896397 / 18014398509481984 + 3602879701896397 / 36028797018963968 :: rat)
     \<noteq> 1351079888211149 / 4503599627370496"
  by code_simp

section \<open>Amounts that are not positive\<close>




section \<open>Operations other than debit and credit\<close>

text \<open>
  Claim C10. For every account, every amount and every operation string that is neither
  \<^verbatim>\<open>"debit"\<close> nor \<^verbatim>\<open>"credit"\<close>, \<open>updateBalance\<close> returns without an error, the document
  it returns differs from the one it was called on in \<^verbatim>\<open>updatedAt\<close> only, and the stored
  balance is unchanged.
\<close>

theorem updateBalance_other_operation:
  assumes "op \<noteq> ''debit''" and "op \<noteq> ''credit''"
  shows "raised (updateBalance n op now a db) = None \<and>
         map_option fst (returned (updateBalance n op now a db)) = Some (a\<lparr>acc_updatedAt := now\<rparr>) \<and>
         balanceAfter (acc_id a) (updateBalance n op now a db) = Some (balance a)"
  using assms
  by (simp add: balanceAfter_updateBalance raised_updateBalance returned_updateBalance_other)

theorem updateBalance_other_operation_witness:
  "''refund'' \<noteq> ''debit'' \<and> ''refund'' \<noteq> ''credit'' \<and>
   raised (updateBalance (Num 40) ''refund'' 7 (mkAccount ''A'' ''asset'' (Num 10))
      \<lparr>accounts = [mkAccount ''A'' ''asset'' (Num 10)], transactions = []\<rparr>) = None \<and>
   balanceAfter ''A'' (updateBalance (Num 40) ''refund'' 7 (mkAccount ''A'' ''asset'' (Num 10))
      \<lparr>accounts = [mkAccount ''A'' ''asset'' (Num 10)], transactions = []\<rparr>) = Some (Num 10)"
  using updateBalance_other_operation [of "''refund''" "Num 40" 7 "mkAccount ''A'' ''asset'' (Num 10)"
      "\<lparr>accounts = [mkAccount ''A'' ''asset'' (Num 10)], transactions = []\<rparr>"]
  by (simp add: mkAccount_def)

section \<open>Approval\<close>

lemma raised_approve: "raised (approve approverId now tx db) = None"
  by (simp add: raised_def approve_def Let_def)

lemma transactionAfter_approve:
  "transactionAfter (tx_id tx) (approve approverId now tx db) =
     Some (tx\<lparr>status := ''approved'', approvedBy := Some approverId, tx_updatedAt := now\<rparr>)"
proof -
  let ?t = "tx\<lparr>status := ''approved'', approvedBy := Some approverId, tx_updatedAt := now\<rparr>"
  have "find (\<lambda>x. tx_id x = tx_id ?t) (upsert tx_id ?t (transactions db)) = Some ?t"
    by (rule find_upsert)
  then show ?thesis
    by (simp add: transactionAfter_def approve_def save_transaction_def Let_def
        findTransactionById_def)
qed

lemma balanceAfter_approve:
  "balanceAfter i (approve approverId now tx db) = storedBalance i db"
  by (simp add: balanceAfter_def approve_def save_transaction_def Let_def
      storedBalance_def findAccountById_def)

text \<open>
  Claim C1, as the code has it. For all accounts \<open>A\<close> (debit side) and \<open>B\<close> (credit side)
  and every amount \<open>n > 0\<close>: approving a pending transaction \<open>(A, B, n)\<close> returns without
  an error, stores the status approved and the approver, and leaves the stored balances
  of \<open>A\<close> and of \<open>B\<close> exactly as they were: \<open>approve\<close> applies no posting.
\<close>

theorem approve_leaves_balances:
  assumes "numPositive (amount tx)" and "status tx = ''pending''"
  shows "raised (approve approverId now tx db) = None \<and>
         map_option status (transactionAfter (tx_id tx) (approve approverId now tx db)) =
           Some ''approved'' \<and>
         map_option approvedBy (transactionAfter (tx_id tx) (approve approverId now tx db)) =
           Some (Some approverId) \<and>
         balanceAfter (accountId (debitAccount tx)) (approve approverId now tx db) =
           storedBalance (accountId (debitAccount tx)) db \<and>
         balanceAfter (accountId (creditAccount tx)) (approve approverId now tx db) =
           storedBalance (accountId (creditAccount tx)) db"
  by (simp add: raised_approve balanceAfter_approve transactionAfter_approve)

theorem approve_leaves_balances_witness:
  "numPositive (amount (mkTransaction ''t1'' ''A'' ''L'' (Num 100) ''pending'' 5)) \<and>
   status (mkTransaction ''t1'' ''A'' ''L'' (Num 100) ''pending'' 5) = ''pending'' \<and>
   raised (approve ''m1'' 9 (mkTransaction ''t1'' ''A'' ''L'' (Num 100) ''pending'' 5) ledgerDb) = None \<and>
   map_option status
     (transactionAfter ''t1'' (approve ''m1'' 9 (mkTransaction ''t1'' ''A'' ''L'' (Num 100) ''pending'' 5) ledgerDb))
     = Some ''approved'' \<and>
   balanceAfter ''A'' (approve ''m1'' 9 (mkTransaction ''t1'' ''A'' ''L'' (Num 100) ''pending'' 5) ledgerDb)
     = Some (Num 0) \<and>
   balanceAfter ''L'' (approve ''m1'' 9 (mkTransaction ''t1'' ''A'' ''L'' (Num 100) ''pending'' 5) ledgerDb)
     = Some (Num 0)"
  using approve_leaves_balances [of "mkTransaction ''t1'' ''A'' ''L'' (Num 100) ''pending'' 5" "''m1''" 9 ledgerDb]
  by (simp add: mkTransaction_def ledgerDb_def storedBalance_def findAccountById_def
      getBalance_def mkAccount_def)

text \<open>
  The claim as written fails: after the approval of a transaction of 100 from the asset
  account \<open>A\<close> to the liability account \<open>L\<close>, both stored balances are still 0, where the
  debit and the credit of 100 applied by \<open>updateBalance\<close> would leave 100 in each.
\<close>

theorem approve_posting_counterexample:
  "balanceAfter ''A'' (approve ''m1'' 9 (mkTransaction ''t1'' ''A'' ''L'' (Num 100) ''pending'' 5) ledgerDb)
     = Some (Num 0) \<and>
   balanceAfter ''A'' (updateBalance (Num 100) ''debit'' 9 (mkAccount ''A'' ''asset'' (Num 0)) ledgerDb)
     = Some (Num 100) \<and>
   balanceAfter ''L'' (approve ''m1'' 9 (mkTransaction ''t1'' ''A'' ''L'' (Num 100) ''pending'' 5) ledgerDb)
     = Some (Num 0) \<and>
   balanceAfter ''L'' (updateBalance (Num 100) ''credit'' 9 (mkAccount ''L'' ''liability'' (Num 0)) ledgerDb)
     = Some (Num 100)"
  by code_simp

text \<open>
  Claim C2, as the code has it. For every transaction whose status is already approved or
  already rejected, a further \<open>approve\<close> does not fail: it returns without an error, the
  stored status is approved, the stored approver is the new one, and every account
  balance is exactly as before the call.
\<close>

theorem approve_decided_transaction:
  assumes "status tx \<in> {''approved'', ''rejected''}"
  shows "raised (approve approverId now tx db) = None \<and>
         map_option status (transactionAfter (tx_id tx) (approve approverId now tx db)) =
           Some ''approved'' \<and>
         map_option approvedBy (transactionAfter (tx_id tx) (approve approverId now tx db)) =
           Some (Some approverId) \<and>
         (\<forall>i. balanceAfter i (approve approverId now tx db) = storedBalance i db)"
  by (simp add: raised_approve balanceAfter_approve transactionAfter_approve)

theorem approve_decided_transaction_witness:
  "status rejectedTx \<in> {''approved'', ''rejected''} \<and>
   raised (approve ''m2'' 9 rejectedTx decidedDb) = None \<and>
   map_option status (transactionAfter ''t1'' (approve ''m2'' 9 rejectedTx decidedDb)) =
     Some ''approved'' \<and>
   balanceAfter ''A'' (approve ''m2'' 9 rejectedTx decidedDb) = Some (Num 0)"
  using approve_decided_transaction [of rejectedTx "''m2''" 9 decidedDb]
  by (simp add: rejectedTx_def decidedDb_def mkTransaction_def storedBalance_def
      findAccountById_def getBalance_def mkAccount_def)

text \<open>
  The claim as written fails: the store holds a transaction that \<open>m1\<close> rejected;
  approving it as \<open>m2\<close> raises no ConflictError, and the store then holds the status
  approved and the approver \<open>m2\<close>.
\<close>

theorem approve_decided_transaction_counterexample:
  "map_option status (findTransactionById ''t1'' decidedDb) = Some ''rejected'' \<and>
   map_option approvedBy (findTransactionById ''t1'' decidedDb) = Some (Some ''m1'') \<and>
   raised (approve ''m2'' 9 rejectedTx decidedDb) \<noteq> Some ConflictError \<and>
   map_option status (transactionAfter ''t1'' (approve ''m2'' 9 rejectedTx decidedDb)) =
     Some ''approved'' \<and>
   map_option approvedBy (transactionAfter ''t1'' (approve ''m2'' 9 rejectedTx decidedDb)) =
     Some (Some ''m2'')"
  by (simp add: approve_def save_transaction_def raised_def transactionAfter_def
      findTransactionById_def rejectedTx_def decidedDb_def mkTransaction_def Let_def)

section \<open>Rejection\<close>

lemma raised_reject: "raised (reject approverId reason now tx db) = None"
  by (simp add: raised_def reject_def Let_def)

lemma transactionAfter_reject:
  "transactionAfter (tx_id tx) (reject approverId reason now tx db) =
     Some (tx\<lparr>status := ''rejected'', approvedBy := Some approverId,
              metadata := Some ((case metadata tx of None \<Rightarrow> Map.empty | Some m \<Rightarrow> m)
                                  (''rejectionReason'' \<mapsto> reason)),
              tx_updatedAt := now\<rparr>)"
proof -
  let ?t = "tx\<lparr>status := ''rejected'', approvedBy := Some approverId,
              metadata := Some ((case metadata tx of None \<Rightarrow> Map.empty | Some m \<Rightarrow> m)
                                  (''rejectionReason'' \<mapsto> reason)),
              tx_updatedAt := now\<rparr>"
  have "find (\<lambda>x. tx_id x = tx_id ?t) (upsert tx_id ?t (transactions db)) = Some ?t"
    by (rule find_upsert)
  then show ?thesis
    by (simp add: transactionAfter_def reject_def save_transaction_def Let_def
        findTransactionById_def)
qed

lemma balanceAfter_reject:
  "balanceAfter i (reject approverId reason now tx db) = storedBalance i db"
  by (simp add: balanceAfter_def reject_def save_transaction_def Let_def
      storedBalance_def findAccountById_def)

text \<open>
  Claim C7. For every pending transaction, every approver and every reason string,
  \<open>reject\<close> returns without an error, the stored status is rejected and the stored
  metadata holds the reason, and the stored balances of the debit account and of the
  credit account are exactly as before the call.
\<close>

theorem reject_sets_reason_keeps_balances:
  assumes "status tx = ''pending''"
  shows "raised (reject approverId reason now tx db) = None \<and>
         map_option status (transactionAfter (tx_id tx) (reject approverId reason now tx db)) =
           Some ''rejected'' \<and>
         map_option rejectionReason
           (transactionAfter (tx_id tx) (reject approverId reason now tx db)) =
           Some (Some reason) \<and>
         balanceAfter (accountId (debitAccount tx)) (reject approverId reason now tx db) =
           storedBalance (accountId (debitAccount tx)) db \<and>
         balanceAfter (accountId (creditAccount tx)) (reject approverId reason now tx db) =
           storedBalance (accountId (creditAccount tx)) db"
  by (simp add: raised_reject balanceAfter_reject transactionAfter_reject rejectionReason_def)

theorem reject_sets_reason_keeps_balances_witness:
  "status (mkTransaction ''t1'' ''A'' ''L'' (Num 100) ''pending'' 5) = ''pending'' \<and>
   map_option status
     (transactionAfter ''t1''
        (reject ''m1'' ''no receipt'' 9 (mkTransaction ''t1'' ''A'' ''L'' (Num 100) ''pending'' 5) ledgerDb))
     = Some ''rejected'' \<and>
   map_option rejectionReason
     (transactionAfter ''t1''
        (reject ''m1'' ''no receipt'' 9 (mkTransaction ''t1'' ''A'' ''L'' (Num 100) ''pending'' 5) ledgerDb))
     = Some (Some ''no receipt'') \<and>
   balanceAfter ''A''
     (reject ''m1'' ''no receipt'' 9 (mkTransaction ''t1'' ''A'' ''L'' (Num 100) ''pending'' 5) ledgerDb)
     = Some (Num 0) \<and>
   balanceAfter ''L''
     (reject ''m1'' ''no receipt'' 9 (mkTransaction ''t1'' ''A'' ''L'' (Num 100) ''pending'' 5) ledgerDb)
     = Some (Num 0)"
  using reject_sets_reason_keeps_balances
    [of "mkTransaction ''t1'' ''A'' ''L'' (Num 100) ''pending'' 5" "''m1''" "''no receipt''" 9 ledgerDb]
  by (simp add: mkTransaction_def ledgerDb_def storedBalance_def findAccountById_def
      getBalance_def mkAccount_def)

section \<open>Reconciliation\<close>

text \<open>
  Claim C4 at a liability account. A credit of 100 raises the stored balance of the
  liability account \<open>L\<close> from 0 to 100, by the normal-balance rule of \<open>updateBalance\<close>.
  \<open>reconcileAccounts\<close> on the store that holds this balance and this one transaction
  reports the recorded balance 100, the calculated balance \<open>- 100\<close>, the difference 200
  and \<open>reconciled = False\<close>: the recomputation subtracts every credit, whatever the
  account's type.
\<close>

theorem reconcileAccounts_liability_credit:
  "balanceAfter ''L'' (updateBalance (Num 100) ''credit'' 9 (mkAccount ''L'' ''liability'' (Num 0)) ledgerDb)
     = Some (Num 100) \<and>
   storedBalance ''L'' postedDb = Some (Num 100) \<and>
   map_option (map (\<lambda>r. (recordedBalance r, calculatedBalance r, difference r, reconciled r)) \<circ> r_accounts)
     (returned (reconcileAccounts [''L''] postedDb)) = Some [(Num 100, Num (- 100), Num 200, False)]"
  by code_simp

section \<open>Approval authority\<close>

text \<open>
  Claim C6. For a principal and an employee, \<open>isManager\<close> holds if and only if the
  principal's designation is Admin, or the employee has a manager reference and the
  principal's employee id equals it.
\<close>

theorem isManager_iff:
  "isManager (Some u) (Some e) \<longleftrightarrow>
     designation u = ''Admin'' \<or> (\<exists>m. manager e = Some m \<and> employeeId u = Some (toString m))"
  by (auto simp: isManager_def split: option.splits)

theorem isManager_iff_witness:
  "isManager (Some \<lparr>userId = ''u1'', employeeId = Some ''empManager'', designation = ''BranchManager''\<rparr>)
             (Some \<lparr>emp_userId = ''emp123'', emp_name = ''E'', emp_designation = ''Employee'',
                    manager = Some (ObjectId ''empManager'')\<rparr>) \<and>
   \<not> isManager (Some \<lparr>userId = ''u1'', employeeId = Some ''empManager'', designation = ''BranchManager''\<rparr>)
             (Some \<lparr>emp_userId = ''emp123'', emp_name = ''E'', emp_designation = ''Employee'',
                    manager = Some (ObjectId ''differentManager'')\<rparr>)"
  using isManager_iff [of "\<lparr>userId = ''u1'', employeeId = Some ''empManager'', designation = ''BranchManager''\<rparr>"
      "\<lparr>emp_userId = ''emp123'', emp_name = ''E'', emp_designation = ''Employee'',
                    manager = Some (ObjectId ''empManager'')\<rparr>"]
    isManager_iff [of "\<lparr>userId = ''u1'', employeeId = Some ''empManager'', designation = ''BranchManager''\<rparr>"
      "\<lparr>emp_userId = ''emp123'', emp_name = ''E'', emp_designation = ''Employee'',
                    manager = Some (ObjectId ''differentManager'')\<rparr>"]
  by simp

section \<open>Role ranking\<close>

lemma indexOf_ROLE_HIERARCHY:
  "i < length ROLE_HIERARCHY \<Longrightarrow> indexOf ROLE_HIERARCHY (ROLE_HIERARCHY ! i) = int i"
proof -
  assume "i < length ROLE_HIERARCHY"
  then have "i = 0 \<or> i = 1 \<or> i = 2 \<or> i = 3"
    by (auto simp: ROLE_HIERARCHY_def)
  then show ?thesis
    by (auto simp: ROLE_HIERARCHY_def)
qed

text \<open>
  Claim C8. For the roles at indices \<open>i\<close> and \<open>j\<close> of the hierarchy
  \<^verbatim>\<open>[Vendor, Employee, BranchManager, Admin]\<close>, \<open>isRoleHigher\<close> of the first over the second
  holds if and only if \<open>i\<close> is strictly greater than \<open>j\<close>.
\<close>

theorem isRoleHigher_iff_index:
  assumes "i < length ROLE_HIERARCHY" and "j < length ROLE_HIERARCHY"
  shows "isRoleHigher (ROLE_HIERARCHY ! i) (ROLE_HIERARCHY ! j) \<longleftrightarrow> j < i"
  using assms by (simp add: isRoleHigher_def indexOf_ROLE_HIERARCHY Let_def)

theorem isRoleHigher_iff_index_witness:
  "3 < length ROLE_HIERARCHY \<and> 1 < length ROLE_HIERARCHY \<and>
   ROLE_HIERARCHY ! 3 = ''Admin'' \<and> ROLE_HIERARCHY ! 1 = ''Employee'' \<and>
   isRoleHigher ''Admin'' ''Employee'' \<and> \<not> isRoleHigher ''Employee'' ''Admin''"
  using isRoleHigher_iff_index [of 3 1] isRoleHigher_iff_index [of 1 3]
  by (simp add: ROLE_HIERARCHY_def)

section \<open>Aggregation by period\<close>


















end
